theory Spec2Isabelle
  imports
    Complex_Main
    "HOL-Library.Product_Lexorder"
    "HOL-Library.AList"
    "HOL-Library.Multiset"
begin

section \<open>The ledger engine of app.py\<close>

text \<open>
  The development embeds the non-graphical part of \<^verbatim>\<open>src/app.py\<close>: the dataclasses
  \<^verbatim>\<open>Account\<close> and \<^verbatim>\<open>Transaction\<close> and the class \<^verbatim>\<open>DataStore\<close>.

  Conventions of the embedding.
  \<^item> A Python \<^verbatim>\<open>str\<close> is a \<^typ>\<open>string\<close> holding its UTF-8 bytes; the Russian literals
    of the source are written as byte lists.
  \<^item> A Python \<^verbatim>\<open>int\<close> is an \<^typ>\<open>int\<close>.
  \<^item> A Python \<^verbatim>\<open>float\<close> is a \<^typ>\<open>real\<close>: amounts are exact, as the "decimal" of the
    specification; rounding, infinities and NaN are outside the model.
  \<^item> A \<^verbatim>\<open>datetime\<close> is a naive one (no time zone), as \<^verbatim>\<open>datetime.now()\<close> returns.
  \<^item> The file system is a map from paths to files; a write always succeeds.
\<close>

subsection \<open>Python values read from and written to JSON\<close>

datatype json =
    JNull
  | JBool bool
  | JInt int
  | JFloat real
  | JStr string
  | JArr "json list"
  | JObj "(string \<times> json) list"

text \<open>The exceptions that the modelled code can raise; \<^verbatim>\<open>except Exception\<close> catches each.\<close>

datatype exn = KeyError | TypeError | ValueError | AttributeError | JSONDecodeError

text \<open>\<^verbatim>\<open>data[key]\<close>: only a dict can be indexed by a string.\<close>

definition subscript :: "json \<Rightarrow> string \<Rightarrow> exn + json" where
  "subscript data k =
     (case data of
        JObj kvs \<Rightarrow> (case map_of kvs k of None \<Rightarrow> Inl KeyError | Some v \<Rightarrow> Inr v)
      | _ \<Rightarrow> Inl TypeError)"

text \<open>\<^verbatim>\<open>data.get(key, default)\<close>: only a dict has the method.\<close>

definition dict_get :: "json \<Rightarrow> string \<Rightarrow> json \<Rightarrow> exn + json" where
  "dict_get data k dflt =
     (case data of
        JObj kvs \<Rightarrow> (case map_of kvs k of None \<Rightarrow> Inr dflt | Some v \<Rightarrow> Inr v)
      | _ \<Rightarrow> Inl AttributeError)"

text \<open>
  The items a comprehension \<^verbatim>\<open>for item in v\<close> runs over: the elements of a list, the keys of
  a dict, the characters of a string; anything else is not iterable.
\<close>

definition iter_items :: "json \<Rightarrow> exn + json list" where
  "iter_items v =
     (case v of
        JArr xs \<Rightarrow> Inr xs
      | JObj kvs \<Rightarrow> Inr (map (\<lambda>kv. JStr (fst kv)) kvs)
      | JStr s \<Rightarrow> Inr (map (\<lambda>c. JStr [c]) s)
      | _ \<Rightarrow> Inl TypeError)"

text \<open>
  \<^verbatim>\<open>float(v)\<close> and \<^verbatim>\<open>int(v)\<close>. Python also converts numeric strings; the model raises
  \<^verbatim>\<open>ValueError\<close> on every string.
\<close>

definition py_float :: "json \<Rightarrow> exn + real" where
  "py_float v =
     (case v of
        JInt i \<Rightarrow> Inr (of_int i)
      | JFloat r \<Rightarrow> Inr r
      | JBool b \<Rightarrow> Inr (if b then 1 else 0)
      | JStr s \<Rightarrow> Inl ValueError
      | _ \<Rightarrow> Inl TypeError)"

definition py_int :: "json \<Rightarrow> exn + int" where
  "py_int v =
     (case v of
        JInt i \<Rightarrow> Inr i
      | JFloat r \<Rightarrow> Inr (if 0 \<le> r then \<lfloor>r\<rfloor> else \<lceil>r\<rceil>)
      | JBool b \<Rightarrow> Inr (if b then 1 else 0)
      | JStr s \<Rightarrow> Inl ValueError
      | _ \<Rightarrow> Inl TypeError)"

text \<open>
  The dataclasses do not check the types of their fields, the records of the model do: a
  field that must hold an integer or a string raises \<^verbatim>\<open>TypeError\<close> in the model when the
  JSON value is of another type, where Python would store the value as it is.
\<close>

definition as_int :: "json \<Rightarrow> exn + int" where
  "as_int v = (case v of JInt i \<Rightarrow> Inr i | _ \<Rightarrow> Inl TypeError)"

definition as_str :: "json \<Rightarrow> exn + string" where
  "as_str v = (case v of JStr s \<Rightarrow> Inr s | _ \<Rightarrow> Inl TypeError)"

text \<open>A list comprehension whose body can raise: the first exception ends it.\<close>

fun map_exn :: "('a \<Rightarrow> exn + 'b) \<Rightarrow> 'a list \<Rightarrow> exn + 'b list" where
  "map_exn f [] = Inr []"
| "map_exn f (x # xs) =
     (case f x of
        Inl e \<Rightarrow> Inl e
      | Inr y \<Rightarrow> (case map_exn f xs of Inl e \<Rightarrow> Inl e | Inr ys \<Rightarrow> Inr (y # ys)))"

subsection \<open>Naive datetimes\<close>

record datetime =
  year :: nat
  month :: nat
  day :: nat
  hour :: nat
  minute :: nat
  second :: nat
  microsecond :: nat

definition is_leap :: "nat \<Rightarrow> bool" where
  "is_leap y = (y mod 4 = 0 \<and> (if y mod 100 = 0 then y mod 400 = 0 else True))"

definition days_in_month :: "nat \<Rightarrow> nat \<Rightarrow> nat" where
  "days_in_month y m =
     (if m = 2 then (if is_leap y then 29 else 28)
      else if m = 4 \<or> m = 6 \<or> m = 9 \<or> m = 11 then 30 else 31)"

text \<open>The ranges that the constructor of \<^verbatim>\<open>datetime\<close> enforces.\<close>

definition valid_datetime :: "datetime \<Rightarrow> bool" where
  "valid_datetime d =
     (1 \<le> year d \<and> year d \<le> 9999 \<and> 1 \<le> month d \<and> month d \<le> 12 \<and>
      1 \<le> day d \<and> day d \<le> days_in_month (year d) (month d) \<and>
      hour d < 24 \<and> minute d < 60 \<and> second d < 60 \<and> microsecond d < 1000000)"

text \<open>
  Naive datetimes compare field by field, from the year down to the microsecond: the
  lexicographic order of this tuple.
\<close>

definition dt_key :: "datetime \<Rightarrow> nat \<times> nat \<times> nat \<times> nat \<times> nat \<times> nat \<times> nat" where
  "dt_key d = (year d, month d, day d, hour d, minute d, second d, microsecond d)"

subsubsection \<open>Decimal fields\<close>

definition digit_char :: "nat \<Rightarrow> char" where
  "digit_char n = char_of (48 + n mod 10)"

definition digit_val :: "char \<Rightarrow> nat option" where
  "digit_val c =
     (let k = (of_char c :: nat) in if 48 \<le> k \<and> k \<le> 57 then Some (k - 48) else None)"

text \<open>\<open>zpad w n\<close> is \<^verbatim>\<open>"%0wd" % n\<close> for a number of at most \<open>w\<close> digits.\<close>

fun zpad :: "nat \<Rightarrow> nat \<Rightarrow> string" where
  "zpad 0 n = []"
| "zpad (Suc w) n = zpad w (n div 10) @ [digit_char n]"

definition parse_step :: "nat option \<Rightarrow> char \<Rightarrow> nat option" where
  "parse_step acc c =
     (case acc of
        None \<Rightarrow> None
      | Some a \<Rightarrow> (case digit_val c of None \<Rightarrow> None | Some v \<Rightarrow> Some (10 * a + v)))"

definition parse_nat :: "string \<Rightarrow> nat option" where
  "parse_nat s = (if s = [] then None else foldl parse_step (Some 0) s)"

subsubsection \<open>isoformat, fromisoformat, strftime\<close>

text \<open>
  \<^verbatim>\<open>datetime.isoformat()\<close> of a naive datetime: \<^verbatim>\<open>YYYY-MM-DDTHH:MM:SS\<close>, followed by
  \<^verbatim>\<open>.ffffff\<close> when the microsecond is not 0.
\<close>

definition isoformat :: "datetime \<Rightarrow> string" where
  "isoformat d =
     zpad 4 (year d) @ ''-'' @ zpad 2 (month d) @ ''-'' @ zpad 2 (day d) @ ''T'' @
     zpad 2 (hour d) @ '':'' @ zpad 2 (minute d) @ '':'' @ zpad 2 (second d) @
     (if microsecond d = 0 then [] else ''.'' @ zpad 6 (microsecond d))"

definition slice :: "nat \<Rightarrow> nat \<Rightarrow> string \<Rightarrow> string" where
  "slice i j s = take (j - i) (drop i s)"

text \<open>
  \<^verbatim>\<open>datetime.fromisoformat(s)\<close> on the two spellings that \<open>isoformat\<close> writes, with any
  character between date and time, and with the range checks of the constructor. Python
  accepts further spellings (a date alone, a time without seconds, a UTC offset); the model
  raises \<^verbatim>\<open>ValueError\<close> on them.
\<close>

definition fromisoformat :: "string \<Rightarrow> exn + datetime" where
  "fromisoformat s =
     (if (length s = 19 \<or> length s = 26) \<and>
         s ! 4 = CHR ''-'' \<and> s ! 7 = CHR ''-'' \<and> s ! 13 = CHR '':'' \<and> s ! 16 = CHR '':'' \<and>
         (if length s = 26 then s ! 19 = CHR ''.'' else True)
      then
        (case (parse_nat (slice 0 4 s), parse_nat (slice 5 7 s), parse_nat (slice 8 10 s),
               parse_nat (slice 11 13 s), parse_nat (slice 14 16 s), parse_nat (slice 17 19 s),
               if length s = 26 then parse_nat (slice 20 26 s) else Some 0) of
           (Some y, Some mo, Some dd, Some h, Some mi, Some sec, Some us) \<Rightarrow>
             (let d = \<lparr>year = y, month = mo, day = dd, hour = h, minute = mi,
                       second = sec, microsecond = us\<rparr>
              in if valid_datetime d then Inr d else Inl ValueError)
         | _ \<Rightarrow> Inl ValueError)
      else Inl ValueError)"





subsection \<open>The string constants of the source\<close>

definition BASE_CURRENCY :: string where
  "BASE_CURRENCY = ''RUB''"

text \<open>The default account type of \<^verbatim>\<open>Account.from_dict\<close> (in Russian: "account").\<close>

definition DEFAULT_ACC_TYPE :: string where
  "DEFAULT_ACC_TYPE = [CHR 0xD0, CHR 0xA1, CHR 0xD1, CHR 0x87, CHR 0xD0, CHR 0xB5, CHR 0xD1, CHR 0x82]"

text \<open>The default category of \<^verbatim>\<open>Transaction.from_dict\<close> ("other operating expenses").\<close>

definition DEFAULT_CATEGORY :: string where
  "DEFAULT_CATEGORY =
     [CHR 0xD0, CHR 0x9F, CHR 0xD1, CHR 0x80, CHR 0xD0, CHR 0xBE, CHR 0xD1, CHR 0x87,
      CHR 0xD0, CHR 0xB8, CHR 0xD0, CHR 0xB5, CHR 0x20, CHR 0xD0, CHR 0xBE, CHR 0xD0,
      CHR 0xBF, CHR 0xD0, CHR 0xB5, CHR 0xD1, CHR 0x80, CHR 0xD0, CHR 0xB0, CHR 0xD1,
      CHR 0x86, CHR 0xD0, CHR 0xB8, CHR 0xD0, CHR 0xBE, CHR 0xD0, CHR 0xBD, CHR 0xD0,
      CHR 0xBD, CHR 0xD1, CHR 0x8B, CHR 0xD0, CHR 0xB5, CHR 0x20, CHR 0xD1, CHR 0x80,
      CHR 0xD0, CHR 0xB0, CHR 0xD1, CHR 0x81, CHR 0xD1, CHR 0x85, CHR 0xD0, CHR 0xBE,
      CHR 0xD0, CHR 0xB4, CHR 0xD1, CHR 0x8B]"

text \<open>The default user name of the settings ("company").\<close>

definition DEFAULT_USER_NAME :: string where
  "DEFAULT_USER_NAME =
     [CHR 0xD0, CHR 0x9A, CHR 0xD0, CHR 0xBE, CHR 0xD0, CHR 0xBC, CHR 0xD0, CHR 0xBF,
      CHR 0xD0, CHR 0xB0, CHR 0xD0, CHR 0xBD, CHR 0xD0, CHR 0xB8, CHR 0xD1, CHR 0x8F]"

text \<open>Name and type of the account that the constructor seeds ("current account", "card").\<close>

definition SEED_NAME :: string where
  "SEED_NAME =
     [CHR 0xD0, CHR 0xA0, CHR 0xD0, CHR 0xB0, CHR 0xD1, CHR 0x81, CHR 0xD1, CHR 0x87,
      CHR 0xD0, CHR 0xB5, CHR 0xD1, CHR 0x82, CHR 0xD0, CHR 0xBD, CHR 0xD1, CHR 0x8B,
      CHR 0xD0, CHR 0xB9, CHR 0x20, CHR 0xD1, CHR 0x81, CHR 0xD1, CHR 0x87, CHR 0xD0,
      CHR 0xB5, CHR 0xD1, CHR 0x82]"

definition SEED_TYPE :: string where
  "SEED_TYPE =
     [CHR 0xD0, CHR 0x9A, CHR 0xD0, CHR 0xB0, CHR 0xD1, CHR 0x80, CHR 0xD1, CHR 0x82,
      CHR 0xD0, CHR 0xB0]"


subsection \<open>Account and Transaction\<close>

record Account =
  aid :: int
  name :: string
  acc_type :: string
  currency :: string
  initial_balance :: real

record Transaction =
  tid :: int
  date :: datetime
  account_id :: int
  category :: string
  description :: string
  amount :: real
  tcurrency :: string

text \<open>Sequencing of calls that can raise: the first exception wins.\<close>

definition then_exn :: "exn + 'a \<Rightarrow> ('a \<Rightarrow> exn + 'b) \<Rightarrow> exn + 'b" where
  "then_exn m f = (case m of Inl e \<Rightarrow> Inl e | Inr x \<Rightarrow> f x)"

definition Account_to_dict :: "Account \<Rightarrow> json" where
  "Account_to_dict a =
     JObj [(''id'', JInt (aid a)),
           (''name'', JStr (name a)),
           (''acc_type'', JStr (acc_type a)),
           (''currency'', JStr (currency a)),
           (''initial_balance'', JFloat (initial_balance a))]"

definition Account_from_dict :: "json \<Rightarrow> exn + Account" where
  "Account_from_dict data =
     then_exn (then_exn (subscript data ''id'') as_int) (\<lambda>i.
     then_exn (then_exn (subscript data ''name'') as_str) (\<lambda>n.
     then_exn (then_exn (dict_get data ''acc_type'' (JStr DEFAULT_ACC_TYPE)) as_str) (\<lambda>ty.
     then_exn (then_exn (dict_get data ''currency'' (JStr BASE_CURRENCY)) as_str) (\<lambda>cur.
     then_exn (then_exn (dict_get data ''initial_balance'' (JFloat 0)) py_float) (\<lambda>bal.
     Inr \<lparr>aid = i, name = n, acc_type = ty, currency = cur, initial_balance = bal\<rparr>)))))"

definition Transaction_to_dict :: "Transaction \<Rightarrow> json" where
  "Transaction_to_dict t =
     JObj [(''id'', JInt (tid t)),
           (''date'', JStr (isoformat (date t))),
           (''account_id'', JInt (account_id t)),
           (''category'', JStr (category t)),
           (''description'', JStr (description t)),
           (''amount'', JFloat (amount t)),
           (''currency'', JStr (tcurrency t))]"

definition Transaction_from_dict :: "json \<Rightarrow> exn + Transaction" where
  "Transaction_from_dict data =
     then_exn (then_exn (subscript data ''id'') as_int) (\<lambda>i.
     then_exn (then_exn (then_exn (subscript data ''date'') as_str) fromisoformat) (\<lambda>d.
     then_exn (then_exn (dict_get data ''account_id'' (JInt 1)) py_int) (\<lambda>acc.
     then_exn (then_exn (dict_get data ''category'' (JStr DEFAULT_CATEGORY)) as_str) (\<lambda>cat.
     then_exn (then_exn (dict_get data ''description'' (JStr [])) as_str) (\<lambda>descr.
     then_exn (then_exn (dict_get data ''amount'' (JFloat 0)) py_float) (\<lambda>amt.
     then_exn (then_exn (dict_get data ''currency'' (JStr BASE_CURRENCY)) as_str) (\<lambda>cur.
     Inr \<lparr>tid = i, date = d, account_id = acc, category = cat, description = descr,
          amount = amt, tcurrency = cur\<rparr>)))))))"

subsection \<open>The store and the world around it\<close>

record DataStore =
  path :: string
  accounts :: "Account list"
  transactions :: "Transaction list"
  settings :: "(string \<times> json) list"
  next_acc_id :: int
  next_tx_id :: int

text \<open>
  What a file holds, as far as the store can see it: a JSON document (what \<^verbatim>\<open>json.load\<close>
  returns for the text that \<^verbatim>\<open>json.dump\<close> wrote), the text of a report (it starts with a
  byte-order mark, which \<^verbatim>\<open>json.load\<close> rejects), or anything else that cannot be read and
  parsed as JSON.
\<close>

datatype content = Doc json | Report string | Garbled

text \<open>What \<^verbatim>\<open>print\<close> reported on the console.\<close>

datatype report = LoadError exn | SaveError exn

record world =
  files :: "string \<rightharpoonup> content"
  console :: "report list"

type_synonym state = "DataStore \<times> world"

subsection \<open>save and load\<close>

text \<open>
  \<^verbatim>\<open>save\<close> dumps accounts, transactions and settings into the file at \<open>path\<close>. Nothing in
  the \<^verbatim>\<open>try\<close> block raises but the write itself, which always succeeds here.
\<close>

definition save :: "state \<Rightarrow> state" where
  "save st =
     (case st of (s, w) \<Rightarrow>
        (s, w\<lparr>files := (files w)(path s \<mapsto>
               Doc (JObj [(''accounts'', JArr (map Account_to_dict (accounts s))),
                          (''transactions'', JArr (map Transaction_to_dict (transactions s))),
                          (''settings'', JObj (settings s))]))\<rparr>))"

text \<open>\<^verbatim>\<open>max\<close> of a generator raises on an empty one.\<close>

definition py_max :: "int list \<Rightarrow> exn + int" where
  "py_max xs = (case xs of [] \<Rightarrow> Inl ValueError | x # ys \<Rightarrow> Inr (fold max ys x))"

text \<open>
  \<^verbatim>\<open>settings.update(v)\<close> for a dict \<open>v\<close>: a key that is present keeps its place, a new key
  is added at the end. Python also accepts an iterable of pairs; the model accepts the empty
  ones only.
\<close>

definition dict_update :: "(string \<times> json) list \<Rightarrow> json \<Rightarrow> exn + (string \<times> json) list" where
  "dict_update d v =
     (case v of
        JObj kvs \<Rightarrow> Inr (fold (\<lambda>kv. AList.update (fst kv) (snd kv)) kvs d)
      | JArr xs \<Rightarrow> (if xs = [] then Inr d else Inl TypeError)
      | JStr cs \<Rightarrow> (if cs = [] then Inr d else Inl ValueError)
      | _ \<Rightarrow> Inl TypeError)"

text \<open>
  The body of the \<^verbatim>\<open>try\<close> block of \<^verbatim>\<open>load\<close>, statement by statement. It returns the
  exception that ended it, if any, and the store as the statements before that left it.
\<close>

definition load_try :: "DataStore \<Rightarrow> content \<Rightarrow> exn option \<times> DataStore" where
  "load_try s f =
     (case f of
        Doc raw \<Rightarrow>
          (case then_exn (then_exn (dict_get raw ''accounts'' (JArr [])) iter_items)
                  (map_exn Account_from_dict) of
             Inl e \<Rightarrow> (Some e, s)
           | Inr accs \<Rightarrow>
              (let s1 = s\<lparr>accounts := accs\<rparr> in
               case then_exn (then_exn (dict_get raw ''transactions'' (JArr [])) iter_items)
                      (map_exn Transaction_from_dict) of
                 Inl e \<Rightarrow> (Some e, s1)
               | Inr txs \<Rightarrow>
                  (let s2 = s1\<lparr>transactions := txs\<rparr> in
                   case (if accounts s2 \<noteq> []
                         then then_exn (py_max (map aid (accounts s2)))
                                (\<lambda>m. Inr (s2\<lparr>next_acc_id := m + 1\<rparr>))
                         else Inr s2) of
                     Inl e \<Rightarrow> (Some e, s2)
                   | Inr s3 \<Rightarrow>
                      (case (if transactions s3 \<noteq> []
                             then then_exn (py_max (map tid (transactions s3)))
                                    (\<lambda>m. Inr (s3\<lparr>next_tx_id := m + 1\<rparr>))
                             else Inr s3) of
                         Inl e \<Rightarrow> (Some e, s3)
                       | Inr s4 \<Rightarrow>
                          (case then_exn (dict_get raw ''settings'' (JObj []))
                                  (dict_update (settings s4)) of
                             Inl e \<Rightarrow> (Some e, s4)
                           | Inr st \<Rightarrow> (None, s4\<lparr>settings := st\<rparr>))))))
      | _ \<Rightarrow> (Some JSONDecodeError, s))"

definition load :: "state \<Rightarrow> state" where
  "load st =
     (case st of (s, w) \<Rightarrow>
        (case files w (path s) of
           None \<Rightarrow> (s, w)
         | Some f \<Rightarrow>
            (case load_try s f of
               (None, s') \<Rightarrow> (s', w)
             | (Some e, s') \<Rightarrow> (s', w\<lparr>console := console w @ [LoadError e]\<rparr>))))"

subsection \<open>Accounts\<close>

definition add_account :: "string \<Rightarrow> string \<Rightarrow> string \<Rightarrow> real \<Rightarrow> state \<Rightarrow> Account \<times> state" where
  "add_account nm ty cur bal st =
     (case st of (s, w) \<Rightarrow>
        (let acc = \<lparr>aid = next_acc_id s, name = nm, acc_type = ty, currency = cur,
                    initial_balance = bal\<rparr>;
             s1 = s\<lparr>accounts := accounts s @ [acc]\<rparr>;
             s2 = s1\<lparr>next_acc_id := next_acc_id s1 + 1\<rparr>
         in (acc, save (s2, w))))"

definition get_accounts :: "DataStore \<Rightarrow> Account list" where
  "get_accounts s = accounts s"

definition get_account_by_id :: "DataStore \<Rightarrow> int \<Rightarrow> Account option" where
  "get_account_by_id s acc_id = find (\<lambda>acc. aid acc = acc_id) (accounts s)"

text \<open>
  The lookup returns the object that is in the list, so an assignment to its fields changes
  the first element of the list with that id.
\<close>

fun update_first :: "('a \<Rightarrow> bool) \<Rightarrow> ('a \<Rightarrow> 'a) \<Rightarrow> 'a list \<Rightarrow> 'a list" where
  "update_first p f [] = []"
| "update_first p f (x # xs) = (if p x then f x # xs else x # update_first p f xs)"

definition update_account :: "int \<Rightarrow> string \<Rightarrow> string \<Rightarrow> real \<Rightarrow> state \<Rightarrow> state" where
  "update_account acc_id nm ty bal st =
     (case st of (s, w) \<Rightarrow>
        (case get_account_by_id s acc_id of
           None \<Rightarrow> (s, w)
         | Some acc \<Rightarrow>
            save (s\<lparr>accounts :=
                      update_first (\<lambda>a. aid a = acc_id)
                        (\<lambda>a. a\<lparr>name := nm, acc_type := ty, initial_balance := bal\<rparr>)
                        (accounts s)\<rparr>, w)))"

definition get_account_balance :: "DataStore \<Rightarrow> int \<Rightarrow> real" where
  "get_account_balance s acc_id =
     (case get_account_by_id s acc_id of
        None \<Rightarrow> 0
      | Some acc \<Rightarrow>
         foldl (\<lambda>total t.
                  if account_id t = acc_id \<and> tcurrency t = currency acc
                  then total + amount t else total)
           (initial_balance acc) (transactions s))"

definition get_overall_balance :: "DataStore \<Rightarrow> real" where
  "get_overall_balance s =
     foldl (\<lambda>total acc. total + get_account_balance s (aid acc)) 0 (accounts s)"

subsection \<open>Transactions\<close>

text \<open>The clock is an argument: \<open>now\<close> is what \<^verbatim>\<open>datetime.now()\<close> returns during the call.\<close>

definition add_transaction ::
  "datetime \<Rightarrow> int \<Rightarrow> real \<Rightarrow> string \<Rightarrow> string \<Rightarrow> datetime option \<Rightarrow> state \<Rightarrow> Transaction \<times> state"
where
  "add_transaction now acc_id amt cat descr date_arg st =
     (case st of (s, w) \<Rightarrow>
        (let d = (case date_arg of None \<Rightarrow> now | Some d' \<Rightarrow> d');
             tx = \<lparr>tid = next_tx_id s, date = d, account_id = acc_id, category = cat,
                   description = descr, amount = amt, tcurrency = BASE_CURRENCY\<rparr>;
             s1 = s\<lparr>transactions := transactions s @ [tx]\<rparr>;
             s2 = s1\<lparr>next_tx_id := next_tx_id s1 + 1\<rparr>
         in (tx, save (s2, w))))"

definition get_transaction_by_id :: "DataStore \<Rightarrow> int \<Rightarrow> Transaction option" where
  "get_transaction_by_id s tx_id = find (\<lambda>t. tid t = tx_id) (transactions s)"

definition update_transaction :: "int \<Rightarrow> int \<Rightarrow> real \<Rightarrow> string \<Rightarrow> string \<Rightarrow> state \<Rightarrow> state" where
  "update_transaction tx_id acc_id amt cat descr st =
     (case st of (s, w) \<Rightarrow>
        (case get_transaction_by_id s tx_id of
           None \<Rightarrow> (s, w)
         | Some tx \<Rightarrow>
            save (s\<lparr>transactions :=
                      update_first (\<lambda>t. tid t = tx_id)
                        (\<lambda>t. t\<lparr>account_id := acc_id, amount := amt, category := cat,
                                description := descr\<rparr>)
                        (transactions s)\<rparr>, w)))"

definition delete_transaction :: "int \<Rightarrow> state \<Rightarrow> state" where
  "delete_transaction tx_id st =
     (case st of (s, w) \<Rightarrow>
        save (s\<lparr>transactions := filter (\<lambda>t. tid t \<noteq> tx_id) (transactions s)\<rparr>, w))"

text \<open>
  \<^verbatim>\<open>sorted(xs, key=f, reverse=True)\<close>: Python's sort is stable, also when reversed. The
  model inserts each element, from the last to the first, in front of the first element
  whose key is not larger.
\<close>

fun insort_desc :: "('a \<Rightarrow> 'k::linorder) \<Rightarrow> 'a \<Rightarrow> 'a list \<Rightarrow> 'a list" where
  "insort_desc f x [] = [x]"
| "insort_desc f x (y # ys) = (if f y \<le> f x then x # y # ys else y # insort_desc f x ys)"

definition sorted_reverse :: "('a \<Rightarrow> 'k::linorder) \<Rightarrow> 'a list \<Rightarrow> 'a list" where
  "sorted_reverse f xs = foldr (insort_desc f) xs []"

definition get_transactions :: "DataStore \<Rightarrow> Transaction list" where
  "get_transactions s = sorted_reverse (\<lambda>t. dt_key (date t)) (transactions s)"

text \<open>\<^verbatim>\<open>by_category.get(c, 0.0)\<close> on a dict kept as the list of its items.\<close>

definition get_or :: "(string \<times> real) list \<Rightarrow> string \<Rightarrow> real \<Rightarrow> real" where
  "get_or d k dflt = (case map_of d k of None \<Rightarrow> dflt | Some v \<Rightarrow> v)"

definition month_step ::
  "datetime \<Rightarrow> real \<times> real \<times> (string \<times> real) list \<Rightarrow> Transaction
     \<Rightarrow> real \<times> real \<times> (string \<times> real) list"
where
  "month_step now acc t =
     (case acc of (income, expense, by_category) \<Rightarrow>
        if year (date t) = year now \<and> month (date t) = month now
        then (if amount t \<ge> 0 then income + amount t else income,
              if amount t \<ge> 0 then expense else expense + amount t,
              AList.update (category t) (get_or by_category (category t) 0 + amount t)
                by_category)
        else (income, expense, by_category))"

definition get_month_summary :: "datetime \<Rightarrow> DataStore \<Rightarrow> real \<times> real \<times> (string \<times> real) list" where
  "get_month_summary now s = foldl (month_step now) (0, 0, []) (transactions s)"

text \<open>The transactions whose date is in the year and month of \<open>now\<close>, in storage order.\<close>

definition month_txs :: "datetime \<Rightarrow> DataStore \<Rightarrow> Transaction list" where
  "month_txs now s =
     filter (\<lambda>t. year (date t) = year now \<and> month (date t) = month now) (transactions s)"

subsection \<open>The report\<close>






subsection \<open>The constructor\<close>

definition new_fields :: "string \<Rightarrow> DataStore" where
  "new_fields p =
     \<lparr>path = p, accounts = [], transactions = [],
      settings = [(''user_name'', JStr DEFAULT_USER_NAME)],
      next_acc_id = 1, next_tx_id = 1\<rparr>"

definition DataStore_init :: "string \<Rightarrow> world \<Rightarrow> state" where
  "DataStore_init p w =
     (let st = load (new_fields p, w)
      in if accounts (fst st) = []
         then save (snd (add_account SEED_NAME SEED_TYPE BASE_CURRENCY 0 st))
         else st)"

subsection \<open>A sequence of calls of add_account\<close>

text \<open>
  The calls are made one after the other with the given arguments; the result is the list
  of the accounts that the calls returned, in call order, and the final state.
\<close>

fun add_accounts ::
  "(string \<times> string \<times> string \<times> real) list \<Rightarrow> state \<Rightarrow> Account list \<times> state" where
  "add_accounts [] st = ([], st)"
| "add_accounts ((nm, ty, cur, bal) # rest) st =
     (case add_account nm ty cur bal st of
        (acc, st1) \<Rightarrow> (case add_accounts rest st1 of (accs, st2) \<Rightarrow> (acc # accs, st2)))"

subsection \<open>Example data\<close>

definition ex_acc :: Account where
  "ex_acc = \<lparr>aid = 1, name = ''Main'', acc_type = ''Card'', currency = ''RUB'',
             initial_balance = 1000\<rparr>"

definition ex_acc2 :: Account where
  "ex_acc2 = \<lparr>aid = 2, name = ''Cash'', acc_type = ''Cash'', currency = ''RUB'',
              initial_balance = 50\<rparr>"

definition ex_date :: datetime where
  "ex_date = \<lparr>year = 2024, month = 3, day = 15, hour = 10, minute = 30, second = 0,
              microsecond = 0\<rparr>"

definition ex_tx :: "int \<Rightarrow> int \<Rightarrow> real \<Rightarrow> string \<Rightarrow> string \<Rightarrow> Transaction" where
  "ex_tx i a amt cat cur =
     \<lparr>tid = i, date = ex_date, account_id = a, category = cat, description = ''x'',
      amount = amt, tcurrency = cur\<rparr>"

text \<open>
  One account, two transactions on it in its currency, one in another currency, and one
  that refers to an account that does not exist.
\<close>

definition ex_store :: DataStore where
  "ex_store =
     \<lparr>path = ''data.json'', accounts = [ex_acc],
      transactions = [ex_tx 1 1 500 ''Services'' ''RUB'', ex_tx 2 1 (-200) ''Rent'' ''RUB'',
                      ex_tx 3 1 70 ''Services'' ''USD'', ex_tx 4 9 (-5) ''Rent'' ''RUB''],
      settings = [], next_acc_id = 2, next_tx_id = 5\<rparr>"

text \<open>Two accounts with transactions on both.\<close>

definition ex_store2 :: DataStore where
  "ex_store2 =
     \<lparr>path = ''data.json'', accounts = [ex_acc, ex_acc2],
      transactions = [ex_tx 1 1 500 ''Services'' ''RUB'', ex_tx 2 2 (-20) ''Rent'' ''RUB'',
                      ex_tx 3 2 5 ''Services'' ''RUB'', ex_tx 4 1 (-200) ''Rent'' ''RUB''],
      settings = [], next_acc_id = 3, next_tx_id = 5\<rparr>"

definition ex_world :: world where
  "ex_world = \<lparr>files = Map.empty, console = []\<rparr>"

definition ex_date2 :: datetime where
  "ex_date2 = \<lparr>year = 2024, month = 4, day = 1, hour = 23, minute = 59, second = 7,
               microsecond = 250000\<rparr>"

text \<open>Four transactions on two dates, the later date second and fourth.\<close>

definition ex_store_dates :: DataStore where
  "ex_store_dates =
     \<lparr>path = ''data.json'', accounts = [ex_acc],
      transactions = [ex_tx 1 1 500 ''Services'' ''RUB'',
                      (ex_tx 2 1 (-200) ''Rent'' ''RUB'')\<lparr>date := ex_date2\<rparr>,
                      ex_tx 3 1 70 ''Services'' ''RUB'',
                      (ex_tx 4 1 (-5) ''Rent'' ''RUB'')\<lparr>date := ex_date2\<rparr>],
      settings = [], next_acc_id = 2, next_tx_id = 5\<rparr>"

text \<open>A transaction in another currency, on an account that no store above has.\<close>

definition ex_foreign_tx :: Transaction where
  "ex_foreign_tx = ex_tx 5 9 70 ''Services'' ''USD''"

definition ex_args :: "(string \<times> string \<times> string \<times> real) list" where
  "ex_args = [(''A'', ''Card'', ''RUB'', 10), (''B'', ''Cash'', ''RUB'', 0)]"




text \<open>
  Two documents that are JSON but not a ledger: in the first the transactions are a number,
  in the second a transaction has no date. Both hold one well-formed account with id 5.
\<close>

definition ex_bad_doc :: json where
  "ex_bad_doc =
     JObj [(''accounts'', JArr [JObj [(''id'', JInt 5), (''name'', JStr ''A'')]]),
           (''transactions'', JInt 5)]"

definition ex_bad_doc2 :: json where
  "ex_bad_doc2 =
     JObj [(''accounts'', JArr [JObj [(''id'', JInt 5), (''name'', JStr ''A'')]]),
           (''transactions'', JArr [JObj [(''id'', JInt 1)]])]"

text \<open>The account that \<open>Account_from_dict\<close> builds from the account of these documents.\<close>

definition ex_loaded_acc :: Account where
  "ex_loaded_acc = \<lparr>aid = 5, name = ''A'', acc_type = DEFAULT_ACC_TYPE,
                     currency = ''RUB'', initial_balance = 0\<rparr>"

text \<open>A world whose only file, at the path of the store, holds the document.\<close>

definition ex_bad_world :: "json \<Rightarrow> world" where
  "ex_bad_world doc = \<lparr>files = [''data.json'' \<mapsto> Doc doc], console = []\<rparr>"

section \<open>Properties\<close>

subsection \<open>Loops as sums, lookups\<close>


lemma foldl_add_sum_list:
  "foldl (\<lambda>total x. total + g x) (a::real) xs = a + sum_list (map g xs)"
  by (induction xs arbitrary: a) simp_all

lemma find_None_image: "find (\<lambda>x. f x = k) xs = None \<longleftrightarrow> k \<notin> f ` set xs"
  by (induction xs) auto


subsection \<open>Balances\<close>



text \<open>
  Claim C5. For every store, \<open>get_overall_balance\<close> is the sum, over the accounts of the
  store, of \<open>get_account_balance\<close> at the id of the account.
\<close>

theorem get_overall_balance_spec:
  "get_overall_balance s =
     sum_list (map (\<lambda>acc. get_account_balance s (aid acc)) (accounts s))"
  by (simp add: get_overall_balance_def foldl_add_sum_list)

subsection \<open>Updates of an unknown id\<close>

text \<open>
  Claim C8. For every state (store, files and console) and every id that no account of the
  store has, \<open>update_account\<close> with that id returns the state as it is, once and twice in
  succession; the same holds for \<open>update_transaction\<close> and an id that no transaction has.
  The functions have no path that raises, and nothing is written or printed.
\<close>

theorem update_unknown_id_noop:
  "(acc_id \<notin> aid ` set (accounts (fst st)) \<longrightarrow>
      update_account acc_id nm ty bal st = st \<and>
      update_account acc_id nm ty bal (update_account acc_id nm ty bal st) = st) \<and>
   (tx_id \<notin> tid ` set (transactions (fst st)) \<longrightarrow>
      update_transaction tx_id a amt cat descr st = st \<and>
      update_transaction tx_id a amt cat descr (update_transaction tx_id a amt cat descr st) = st)"
proof (intro conjI impI)
  assume h: "acc_id \<notin> aid ` set (accounts (fst st))"
  then have "get_account_by_id (fst st) acc_id = None"
    by (simp add: get_account_by_id_def find_None_image)
  then show one: "update_account acc_id nm ty bal st = st"
    by (cases st) (simp add: update_account_def)
  then show "update_account acc_id nm ty bal (update_account acc_id nm ty bal st) = st"
    by simp
next
  assume h: "tx_id \<notin> tid ` set (transactions (fst st))"
  then have "get_transaction_by_id (fst st) tx_id = None"
    by (simp add: get_transaction_by_id_def find_None_image)
  then show one: "update_transaction tx_id a amt cat descr st = st"
    by (cases st) (simp add: update_transaction_def)
  then show "update_transaction tx_id a amt cat descr
               (update_transaction tx_id a amt cat descr st) = st"
    by simp
qed

theorem update_unknown_id_noop_witness:
  "7 \<notin> aid ` set (accounts (fst (ex_store, ex_world))) \<and>
   update_account 7 ''N'' ''T'' 5 (ex_store, ex_world) = (ex_store, ex_world) \<and>
   update_account 7 ''N'' ''T'' 5 (update_account 7 ''N'' ''T'' 5 (ex_store, ex_world))
     = (ex_store, ex_world) \<and>
   8 \<notin> tid ` set (transactions (fst (ex_store, ex_world))) \<and>
   update_transaction 8 1 5 ''C'' ''D'' (ex_store, ex_world) = (ex_store, ex_world) \<and>
   update_transaction 8 1 5 ''C'' ''D''
     (update_transaction 8 1 5 ''C'' ''D'' (ex_store, ex_world)) = (ex_store, ex_world)"
proof -
  have a: "7 \<notin> aid ` set (accounts (fst (ex_store, ex_world)))"
    by (simp add: ex_store_def ex_acc_def)
  have b: "8 \<notin> tid ` set (transactions (fst (ex_store, ex_world)))"
    by (simp add: ex_store_def ex_tx_def)
  from a b
    update_unknown_id_noop [of 7 "(ex_store, ex_world)" "''N''" "''T''" 5 8 1 5 "''C''" "''D''"]
  show ?thesis by blast
qed

subsection \<open>The order of the transaction list\<close>

lemma mset_insort_desc: "mset (insort_desc f x ys) = add_mset x (mset ys)"
  by (induction ys) simp_all

lemma set_insort_desc: "set (insort_desc f x ys) = insert x (set ys)"
  by (induction ys) auto

lemma sorted_insort_desc:
  "sorted_wrt (\<lambda>a b. f b \<le> f a) ys \<Longrightarrow> sorted_wrt (\<lambda>a b. f b \<le> f a) (insort_desc f x ys)"
proof (induction ys)
  case Nil
  then show ?case by simp
next
  case (Cons y ys)
  show ?case
  proof (cases "f y \<le> f x")
    case True
    with Cons.prems show ?thesis by auto
  next
    case False
    with Cons show ?thesis by (auto simp: set_insort_desc)
  qed
qed

text \<open>An element is never moved across another one with the same key.\<close>

lemma filter_insort_desc:
  "filter (\<lambda>z. f z = k) (insort_desc f x ys)
     = (if f x = k then x # filter (\<lambda>z. f z = k) ys else filter (\<lambda>z. f z = k) ys)"
  by (induction ys) auto

lemma mset_sorted_reverse: "mset (sorted_reverse f xs) = mset xs"
  by (induction xs) (simp_all add: sorted_reverse_def mset_insort_desc)

lemma sorted_sorted_reverse: "sorted_wrt (\<lambda>a b. f b \<le> f a) (sorted_reverse f xs)"
  by (induction xs) (simp_all add: sorted_reverse_def sorted_insort_desc)

lemma stable_sorted_reverse:
  "filter (\<lambda>z. f z = k) (sorted_reverse f xs) = filter (\<lambda>z. f z = k) xs"
  by (induction xs) (simp_all add: sorted_reverse_def filter_insort_desc)

lemma dt_key_eq_iff: "dt_key d = dt_key d' \<longleftrightarrow> d = (d'::datetime)"
  by (cases d, cases d') (auto simp: dt_key_def)

text \<open>
  Claim C6. For every store, \<open>get_transactions\<close> returns all the transactions of the store
  (the same elements, as often), ordered by date from the latest to the earliest, and the
  transactions that share a date appear in the order they have in the store.
\<close>

theorem get_transactions_spec:
  "mset (get_transactions s) = mset (transactions s) \<and>
   sorted_wrt (\<lambda>a b. dt_key (date b) \<le> dt_key (date a)) (get_transactions s) \<and>
   (\<forall>d. filter (\<lambda>t. date t = d) (get_transactions s) = filter (\<lambda>t. date t = d) (transactions s))"
proof (intro conjI allI)
  show "mset (get_transactions s) = mset (transactions s)"
    by (simp add: get_transactions_def mset_sorted_reverse)
  show "sorted_wrt (\<lambda>a b. dt_key (date b) \<le> dt_key (date a)) (get_transactions s)"
    unfolding get_transactions_def
    by (rule sorted_sorted_reverse [of "\<lambda>t. dt_key (date t)"])
  fix d
  have "filter (\<lambda>t. dt_key (date t) = dt_key d) (get_transactions s)
          = filter (\<lambda>t. dt_key (date t) = dt_key d) (transactions s)"
    unfolding get_transactions_def
    by (rule stable_sorted_reverse [of "\<lambda>t. dt_key (date t)"])
  then show "filter (\<lambda>t. date t = d) (get_transactions s) = filter (\<lambda>t. date t = d) (transactions s)"
    by (simp add: dt_key_eq_iff)
qed

subsection \<open>The summary of a month\<close>

lemma month_step_app:
  "month_step now (i, e, d) t =
     (if year (date t) = year now \<and> month (date t) = month now
      then (if 0 \<le> amount t then i + amount t else i,
            if 0 \<le> amount t then e else e + amount t,
            AList.update (category t) (get_or d (category t) 0 + amount t) d)
      else (i, e, d))"
  by (simp add: month_step_def)

lemma month_fold_income:
  "fst (foldl (month_step now) (i, e, d) xs)
     = i + sum_list (map amount (filter (\<lambda>t. 0 \<le> amount t)
             (filter (\<lambda>t. year (date t) = year now \<and> month (date t) = month now) xs)))"
  by (induction xs arbitrary: i e d) (simp_all add: month_step_app)

lemma month_fold_expense:
  "fst (snd (foldl (month_step now) (i, e, d) xs))
     = e + sum_list (map amount (filter (\<lambda>t. amount t < 0)
             (filter (\<lambda>t. year (date t) = year now \<and> month (date t) = month now) xs)))"
  by (induction xs arbitrary: i e d) (simp_all add: month_step_app)

lemma get_or_update:
  "get_or (AList.update k v d) c dflt = (if c = k then v else get_or d c dflt)"
  by (simp add: get_or_def update_conv')

lemma filter_absent_key:
  "k \<notin> f ` {x \<in> set xs. A x \<and> B x} \<Longrightarrow> filter (\<lambda>x. A x \<and> B x \<and> f x = k) xs = []"
  by (induction xs) auto

lemma month_fold_by_category:
  "map_of (snd (snd (foldl (month_step now) (i, e, d) xs))) c
     = (if c \<in> category ` set (filter (\<lambda>t. year (date t) = year now \<and> month (date t) = month now) xs)
        then Some (get_or d c 0 + sum_list (map amount (filter (\<lambda>t. category t = c)
               (filter (\<lambda>t. year (date t) = year now \<and> month (date t) = month now) xs))))
        else map_of d c)"
proof (induction xs arbitrary: i e d)
  case Nil
  then show ?case by simp
next
  case (Cons t xs)
  show ?case
  proof (cases "year (date t) = year now \<and> month (date t) = month now")
    case False
    then have step: "month_step now (i, e, d) t = (i, e, d)"
      by (auto simp: month_step_app)
    have flt: "filter (\<lambda>t. year (date t) = year now \<and> month (date t) = month now) (t # xs)
                 = filter (\<lambda>t. year (date t) = year now \<and> month (date t) = month now) xs"
      using False by simp
    show ?thesis
      unfolding flt by (simp only: foldl_Cons step Cons.IH)
  next
    case True
    let ?d = "AList.update (category t) (get_or d (category t) 0 + amount t) d"
    obtain i' e' where step: "month_step now (i, e, d) t = (i', e', ?d)"
      using True by (simp add: month_step_app)
    have flt: "filter (\<lambda>t. year (date t) = year now \<and> month (date t) = month now) (t # xs)
                 = t # filter (\<lambda>t. year (date t) = year now \<and> month (date t) = month now) xs"
      using True by simp
    show ?thesis
      unfolding flt
      by (simp only: foldl_Cons step Cons.IH)
         (auto simp: get_or_update update_conv' get_or_def filter_absent_key)
  qed
qed

lemma month_fold_distinct:
  "distinct (map fst d) \<Longrightarrow> distinct (map fst (snd (snd (foldl (month_step now) (i, e, d) xs))))"
  by (induction xs arbitrary: i e d) (simp_all add: month_step_app distinct_update)

lemma sum_list_neg_nonpos: "sum_list (map g (filter (\<lambda>t. g t < 0) xs)) \<le> (0::real)"
  by (induction xs) auto

text \<open>
  Claim C2. For every store and every reference time \<open>now\<close>, the summary is computed from
  exactly the transactions whose date has the year and the month of \<open>now\<close>
  (\<open>month_txs\<close>): the income is the sum of their amounts that are at least 0, the expense
  is the sum of their negative amounts and is at most 0, and the dict of the categories has
  one entry for each category among them, holding the sum of their amounts in that category,
  and no other entry.
\<close>

theorem get_month_summary_spec:
  "get_month_summary now s = (income, expense, by_category) \<Longrightarrow>
     income = sum_list (map amount (filter (\<lambda>t. 0 \<le> amount t) (month_txs now s))) \<and>
     expense = sum_list (map amount (filter (\<lambda>t. amount t < 0) (month_txs now s))) \<and>
     expense \<le> 0 \<and>
     distinct (map fst by_category) \<and>
     (\<forall>c. map_of by_category c =
            (if c \<in> category ` set (month_txs now s)
             then Some (sum_list (map amount (filter (\<lambda>t. category t = c) (month_txs now s))))
             else None))"
proof -
  assume h: "get_month_summary now s = (income, expense, by_category)"
  have i: "income = fst (foldl (month_step now) (0, 0, []) (transactions s))"
    and e: "expense = fst (snd (foldl (month_step now) (0, 0, []) (transactions s)))"
    and c: "by_category = snd (snd (foldl (month_step now) (0, 0, []) (transactions s)))"
    using h by (simp_all add: get_month_summary_def)
  have 1: "income = sum_list (map amount (filter (\<lambda>t. 0 \<le> amount t) (month_txs now s)))"
    unfolding i month_txs_def by (simp add: month_fold_income)
  have 2: "expense = sum_list (map amount (filter (\<lambda>t. amount t < 0) (month_txs now s)))"
    unfolding e month_txs_def by (simp add: month_fold_expense)
  have 3: "expense \<le> 0"
    unfolding 2 by (rule sum_list_neg_nonpos)
  have 4: "distinct (map fst by_category)"
    unfolding c by (rule month_fold_distinct) simp
  have 5: "map_of by_category c' =
            (if c' \<in> category ` set (month_txs now s)
             then Some (sum_list (map amount (filter (\<lambda>t. category t = c') (month_txs now s))))
             else None)" for c'
    unfolding c month_txs_def by (simp add: month_fold_by_category get_or_def)
  from 1 2 3 4 5 show ?thesis by blast
qed

theorem get_month_summary_spec_witness:
  "get_month_summary ex_date2 ex_store_dates = (0, -205, [(''Rent'', -205)]) \<and>
   length (month_txs ex_date2 ex_store_dates) = 2 \<and>
   (0::real) = sum_list (map amount (filter (\<lambda>t. 0 \<le> amount t) (month_txs ex_date2 ex_store_dates))) \<and>
   (-205::real) = sum_list (map amount (filter (\<lambda>t. amount t < 0) (month_txs ex_date2 ex_store_dates))) \<and>
   map_of [(''Rent'', -205::real)] ''Rent'' =
     Some (sum_list (map amount (filter (\<lambda>t. category t = ''Rent'') (month_txs ex_date2 ex_store_dates)))) \<and>
   ''Services'' \<notin> category ` set (month_txs ex_date2 ex_store_dates)"
proof -
  have h: "get_month_summary ex_date2 ex_store_dates = (0, -205, [(''Rent'', -205)])"
    by (simp add: get_month_summary_def ex_store_dates_def ex_tx_def ex_date_def ex_date2_def
          month_step_app get_or_def)
  have m: "length (month_txs ex_date2 ex_store_dates) = 2"
    by (simp add: month_txs_def ex_store_dates_def ex_tx_def ex_date_def ex_date2_def)
  have r: "''Rent'' \<in> category ` set (month_txs ex_date2 ex_store_dates)"
    by (simp add: month_txs_def ex_store_dates_def ex_tx_def ex_date_def ex_date2_def)
  have n: "''Services'' \<notin> category ` set (month_txs ex_date2 ex_store_dates)"
    by (simp add: month_txs_def ex_store_dates_def ex_tx_def ex_date_def ex_date2_def)
  note spec = get_month_summary_spec [OF h]
  from spec have i: "(0::real) = sum_list (map amount (filter (\<lambda>t. 0 \<le> amount t)
                        (month_txs ex_date2 ex_store_dates)))"
    by blast
  from spec have e: "(-205::real) = sum_list (map amount (filter (\<lambda>t. amount t < 0)
                        (month_txs ex_date2 ex_store_dates)))"
    by blast
  from spec have "map_of [(''Rent'', -205::real)] ''Rent'' =
     (if ''Rent'' \<in> category ` set (month_txs ex_date2 ex_store_dates)
      then Some (sum_list (map amount (filter (\<lambda>t. category t = ''Rent'')
                   (month_txs ex_date2 ex_store_dates))))
      else None)"
    by blast
  with r have c: "map_of [(''Rent'', -205::real)] ''Rent'' =
     Some (sum_list (map amount (filter (\<lambda>t. category t = ''Rent'')
             (month_txs ex_date2 ex_store_dates))))"
    by (simp only: if_True)
  from h m i e c n show ?thesis by blast
qed

lemma month_step_ignores:
  "month_step now acc (t\<lparr>account_id := a, tcurrency := c\<rparr>) = month_step now acc t"
  by (cases acc) (simp add: month_step_app)

lemma foldl_map_arg: "foldl f a (map h xs) = foldl (\<lambda>b x. f b (h x)) a xs"
  by (induction xs arbitrary: a) simp_all

text \<open>
  Claim C10. The summary of a month has no filter on the account or the currency: it does
  not change when the accounts of the store are replaced and the account ids and currencies
  of the transactions are overwritten by any values; a transaction of the month adds its
  amount to the income or to the expense and to the entry of its category, whatever its
  account id and currency are. The balance of an account, in contrast, does not change
  when a transaction in another currency than the account's is added.
\<close>

theorem month_summary_no_account_filter:
  "get_month_summary now
      (s\<lparr>accounts := accs,
         transactions := map (\<lambda>t. t\<lparr>account_id := f t, tcurrency := g t\<rparr>) (transactions s)\<rparr>)
     = get_month_summary now s \<and>
   (year (date t) = year now \<and> month (date t) = month now \<longrightarrow>
      get_month_summary now (s\<lparr>transactions := transactions s @ [t]\<rparr>) =
        (case get_month_summary now s of
           (income, expense, by_category) \<Rightarrow>
             (if 0 \<le> amount t then income + amount t else income,
              if 0 \<le> amount t then expense else expense + amount t,
              AList.update (category t) (get_or by_category (category t) 0 + amount t)
                by_category))) \<and>
   (\<forall>acc. get_account_by_id s acc_id = Some acc \<and> tcurrency t \<noteq> currency acc \<longrightarrow>
      get_account_balance (s\<lparr>transactions := transactions s @ [t]\<rparr>) acc_id
        = get_account_balance s acc_id)"
proof (intro conjI impI allI)
  show "get_month_summary now
      (s\<lparr>accounts := accs,
         transactions := map (\<lambda>t. t\<lparr>account_id := f t, tcurrency := g t\<rparr>) (transactions s)\<rparr>)
     = get_month_summary now s"
    by (simp add: get_month_summary_def foldl_map_arg month_step_ignores)
next
  assume m: "year (date t) = year now \<and> month (date t) = month now"
  obtain i e c where r: "foldl (month_step now) (0, 0, []) (transactions s) = (i, e, c)"
    by (cases "foldl (month_step now) (0, 0, []) (transactions s)") auto
  show "get_month_summary now (s\<lparr>transactions := transactions s @ [t]\<rparr>) =
        (case get_month_summary now s of
           (income, expense, by_category) \<Rightarrow>
             (if 0 \<le> amount t then income + amount t else income,
              if 0 \<le> amount t then expense else expense + amount t,
              AList.update (category t) (get_or by_category (category t) 0 + amount t)
                by_category))"
    using m by (simp add: get_month_summary_def r month_step_app)
next
  fix acc
  assume h: "get_account_by_id s acc_id = Some acc \<and> tcurrency t \<noteq> currency acc"
  then have "get_account_by_id (s\<lparr>transactions := transactions s @ [t]\<rparr>) acc_id = Some acc"
    by (simp add: get_account_by_id_def)
  with h show "get_account_balance (s\<lparr>transactions := transactions s @ [t]\<rparr>) acc_id
        = get_account_balance s acc_id"
    by (simp add: get_account_balance_def)
qed

theorem month_summary_no_account_filter_witness:
  "year (date ex_foreign_tx) = year ex_date \<and> month (date ex_foreign_tx) = month ex_date \<and>
   account_id ex_foreign_tx \<notin> aid ` set (accounts ex_store2) \<and>
   get_account_by_id ex_store2 1 = Some ex_acc \<and>
   tcurrency ex_foreign_tx \<noteq> currency ex_acc \<and>
   get_month_summary ex_date ex_store2 = (505, -220, [(''Services'', 505), (''Rent'', -220)]) \<and>
   get_month_summary ex_date (ex_store2\<lparr>transactions := transactions ex_store2 @ [ex_foreign_tx]\<rparr>)
     = (575, -220, [(''Services'', 575), (''Rent'', -220)]) \<and>
   get_account_balance (ex_store2\<lparr>transactions := transactions ex_store2 @ [ex_foreign_tx]\<rparr>) 1
     = get_account_balance ex_store2 1"
proof -
  have a: "year (date ex_foreign_tx) = year ex_date \<and> month (date ex_foreign_tx) = month ex_date"
    by (simp add: ex_foreign_tx_def ex_tx_def)
  have b: "account_id ex_foreign_tx \<notin> aid ` set (accounts ex_store2)"
    by (simp add: ex_foreign_tx_def ex_tx_def ex_store2_def ex_acc_def ex_acc2_def)
  have c: "get_account_by_id ex_store2 1 = Some ex_acc"
    by (simp add: get_account_by_id_def ex_store2_def ex_acc_def)
  have d: "tcurrency ex_foreign_tx \<noteq> currency ex_acc"
    by (simp add: ex_foreign_tx_def ex_tx_def ex_acc_def)
  have e: "get_month_summary ex_date ex_store2
             = (505, -220, [(''Services'', 505), (''Rent'', -220)])"
    by (simp add: get_month_summary_def ex_store2_def ex_tx_def month_step_app get_or_def)
  note inst = month_summary_no_account_filter
    [where now = ex_date and s = ex_store2 and accs = "accounts ex_store2"
       and f = account_id and g = tcurrency and t = ex_foreign_tx and acc_id = 1]
  from inst a have
    "get_month_summary ex_date (ex_store2\<lparr>transactions := transactions ex_store2 @ [ex_foreign_tx]\<rparr>)
       = (case get_month_summary ex_date ex_store2 of
           (income, expense, by_category) \<Rightarrow>
             (if 0 \<le> amount ex_foreign_tx then income + amount ex_foreign_tx else income,
              if 0 \<le> amount ex_foreign_tx then expense else expense + amount ex_foreign_tx,
              AList.update (category ex_foreign_tx)
                (get_or by_category (category ex_foreign_tx) 0 + amount ex_foreign_tx)
                by_category))"
    by blast
  then have f: "get_month_summary ex_date
                  (ex_store2\<lparr>transactions := transactions ex_store2 @ [ex_foreign_tx]\<rparr>)
     = (575, -220, [(''Services'', 575), (''Rent'', -220)])"
    by (simp add: e ex_foreign_tx_def ex_tx_def get_or_def)
  from inst c d have g: "get_account_balance
       (ex_store2\<lparr>transactions := transactions ex_store2 @ [ex_foreign_tx]\<rparr>) 1
     = get_account_balance ex_store2 1"
    by blast
  from a b c d e f g show ?thesis by blast
qed

subsection \<open>The ids of new accounts\<close>

lemma save_fst [simp]: "fst (save st) = fst st"
  by (cases st) (simp add: save_def)

lemma save_idem: "save (save st) = save st"
  by (cases st) (simp add: save_def)

lemma add_account_result:
  "add_account nm ty cur bal st = (acc, st') \<Longrightarrow>
     acc = \<lparr>aid = next_acc_id (fst st), name = nm, acc_type = ty, currency = cur,
            initial_balance = bal\<rparr> \<and>
     accounts (fst st') = accounts (fst st) @ [acc] \<and>
     next_acc_id (fst st') = next_acc_id (fst st) + 1 \<and>
     transactions (fst st') = transactions (fst st) \<and>
     path (fst st') = path (fst st) \<and>
     save st' = st'"
  by (cases st) (auto simp: add_account_def Let_def save_idem)

text \<open>
  \<open>add_account\<close> persists: after the call the file at the path of the store holds the dump
  of the accounts with the new one at the end, of the transactions and of the settings.
\<close>

lemma add_account_persists:
  "add_account nm ty cur bal st = (acc, st') \<Longrightarrow>
     files (snd st') (path (fst st)) =
       Some (Doc (JObj [(''accounts'', JArr (map Account_to_dict (accounts (fst st) @ [acc]))),
                        (''transactions'', JArr (map Transaction_to_dict (transactions (fst st)))),
                        (''settings'', JObj (settings (fst st)))]))"
  by (cases st) (auto simp: add_account_def Let_def save_def)

text \<open>The ids are 1, 2, ... in list order and the counter is one more than their number.\<close>

lemma seq_ids_add_account:
  assumes "map aid (accounts (fst st)) = map (\<lambda>k. int k + 1) [0..<length (accounts (fst st))]"
    and "next_acc_id (fst st) = int (length (accounts (fst st))) + 1"
    and "add_account nm ty cur bal st = (acc, st')"
  shows "map aid (accounts (fst st')) = map (\<lambda>k. int k + 1) [0..<length (accounts (fst st'))]"
    and "next_acc_id (fst st') = int (length (accounts (fst st'))) + 1"
  using assms add_account_result [OF assms(3)] by simp_all

lemma seq_ids_add_accounts:
  "add_accounts args st = (issued, st') \<Longrightarrow>
   map aid (accounts (fst st)) = map (\<lambda>k. int k + 1) [0..<length (accounts (fst st))] \<Longrightarrow>
   next_acc_id (fst st) = int (length (accounts (fst st))) + 1 \<Longrightarrow>
     map aid (accounts (fst st')) = map (\<lambda>k. int k + 1) [0..<length (accounts (fst st'))] \<and>
     next_acc_id (fst st') = int (length (accounts (fst st'))) + 1 \<and>
     accounts (fst st') = accounts (fst st) @ issued \<and>
     length issued = length args"
proof (induction args arbitrary: st issued st')
  case Nil
  then show ?case by simp
next
  case (Cons a args)
  obtain nm ty cur bal where a: "a = (nm, ty, cur, bal)" by (cases a) auto
  obtain acc st1 where s1: "add_account nm ty cur bal st = (acc, st1)"
    by (cases "add_account nm ty cur bal st") auto
  obtain accs st2 where s2: "add_accounts args st1 = (accs, st2)"
    by (cases "add_accounts args st1") auto
  from Cons.prems(1) a s1 s2 have eq: "issued = acc # accs" "st' = st2" by simp_all
  note one = seq_ids_add_account [OF Cons.prems(2) Cons.prems(3) s1]
  note r = add_account_result [OF s1]
  from Cons.IH [OF s2 one]
  have ids: "map aid (accounts (fst st2)) = map (\<lambda>k. int k + 1) [0..<length (accounts (fst st2))]"
    and nxt: "next_acc_id (fst st2) = int (length (accounts (fst st2))) + 1"
    and app: "accounts (fst st2) = accounts (fst st1) @ accs"
    and len: "length accs = length args"
    by blast+
  from r have "accounts (fst st1) = accounts (fst st) @ [acc]" by blast
  with app have app': "accounts (fst st2) = accounts (fst st) @ acc # accs" by simp
  from len have len': "length (acc # accs) = length (a # args)" by simp
  from ids nxt app' len' show ?case unfolding eq by blast
qed

lemma Max_seq_ids: "0 < n \<Longrightarrow> Max (set (map (\<lambda>k. int k + 1) [0..<n])) = int n"
proof (rule Max_eqI)
  show "finite (set (map (\<lambda>k. int k + 1) [0..<n]))" by simp
  show "\<And>y. y \<in> set (map (\<lambda>k. int k + 1) [0..<n]) \<Longrightarrow> y \<le> int n" by auto
  assume "0 < n"
  then have "n - 1 \<in> set [0..<n]" "int (n - 1) + 1 = int n" by auto
  then show "int n \<in> set (map (\<lambda>k. int k + 1) [0..<n])"
    by (metis (mono_tags, lifting) image_eqI set_map)
qed

lemma sorted_seq_ids: "sorted_wrt (<) (map (\<lambda>k. int k + 1) [0..<n])"
  by (simp add: sorted_wrt_map sorted_wrt_iff_nth_less)

lemma distinct_seq_ids: "distinct (map (\<lambda>k. int k + 1) [0..<n])"
  by (simp add: distinct_map inj_on_def)

lemma load_no_doc:
  "\<forall>raw. files w (path s) \<noteq> Some (Doc raw) \<Longrightarrow> fst (load (s, w)) = s"
  by (cases "files w (path s)") (auto simp: load_def load_try_def split: content.splits)

lemma init_no_doc:
  assumes "\<forall>raw. files w p \<noteq> Some (Doc raw)"
  shows "accounts (fst (DataStore_init p w)) =
           [\<lparr>aid = 1, name = SEED_NAME, acc_type = SEED_TYPE, currency = BASE_CURRENCY,
             initial_balance = 0\<rparr>]"
    and "next_acc_id (fst (DataStore_init p w)) = 2"
    and "save (DataStore_init p w) = DataStore_init p w"
proof -
  have p: "path (new_fields p) = p" by (simp add: new_fields_def)
  from assms have l: "fst (load (new_fields p, w)) = new_fields p"
    using load_no_doc [of w "new_fields p"] by (simp add: p)
  obtain w' where lw: "load (new_fields p, w) = (new_fields p, w')"
    using l by (cases "load (new_fields p, w)") auto
  have e: "accounts (new_fields p) = []" "next_acc_id (new_fields p) = 1"
    by (simp_all add: new_fields_def)
  obtain acc st1 where a: "add_account SEED_NAME SEED_TYPE BASE_CURRENCY 0 (new_fields p, w') = (acc, st1)"
    by (cases "add_account SEED_NAME SEED_TYPE BASE_CURRENCY 0 (new_fields p, w')") auto
  have i: "DataStore_init p w = save st1"
    by (simp add: DataStore_init_def lw e a)
  note r = add_account_result [OF a]
  from r e show "accounts (fst (DataStore_init p w)) =
           [\<lparr>aid = 1, name = SEED_NAME, acc_type = SEED_TYPE, currency = BASE_CURRENCY,
             initial_balance = 0\<rparr>]"
    by (simp add: i)
  from r e show "next_acc_id (fst (DataStore_init p w)) = 2" by (simp add: i)
  show "save (DataStore_init p w) = DataStore_init p w" by (simp add: i save_idem)
qed

text \<open>
  A store constructed at a path where no JSON document is found (no file, or a file that is
  not JSON): the constructor seeds the first account, with id 1. After any sequence of calls
  of \<open>add_account\<close> the accounts are the seeded one followed by the returned ones in call
  order, the account at position \<open>k\<close> (from 0) has id \<open>k + 1\<close>, so the ids are strictly
  increasing and pairwise distinct; every further call returns an account with the given
  fields whose id is the maximum of the present ids plus 1, and appends it.
\<close>

lemma fresh_store_account_ids:
  assumes "\<forall>raw. files w p \<noteq> Some (Doc raw)"
    and "add_accounts args (DataStore_init p w) = (issued, st)"
  shows "map aid (accounts (fst (DataStore_init p w))) = [1] \<and>
         accounts (fst st) = accounts (fst (DataStore_init p w)) @ issued \<and>
         length issued = length args \<and>
         (\<forall>k < length (accounts (fst st)). aid (accounts (fst st) ! k) = int k + 1) \<and>
         sorted_wrt (<) (map aid (accounts (fst st))) \<and>
         distinct (map aid (accounts (fst st))) \<and>
         (\<forall>nm ty cur bal acc st'.
             add_account nm ty cur bal st = (acc, st') \<longrightarrow>
               aid acc = Max (set (map aid (accounts (fst st)))) + 1 \<and>
               name acc = nm \<and> acc_type acc = ty \<and> currency acc = cur \<and>
               initial_balance acc = bal \<and>
               accounts (fst st') = accounts (fst st) @ [acc] \<and>
               save st' = st')"
proof -
  let ?st0 = "DataStore_init p w"
  note i = init_no_doc [OF assms(1)]
  have a0: "map aid (accounts (fst ?st0)) = map (\<lambda>k. int k + 1) [0..<length (accounts (fst ?st0))]"
    and n0: "next_acc_id (fst ?st0) = int (length (accounts (fst ?st0))) + 1"
    by (simp_all add: i)
  note run = seq_ids_add_accounts [OF assms(2) a0 n0]
  let ?n = "length (accounts (fst st))"
  from run have ids: "map aid (accounts (fst st)) = map (\<lambda>k. int k + 1) [0..<?n]"
    and nxt: "next_acc_id (fst st) = int ?n + 1"
    and app: "accounts (fst st) = accounts (fst ?st0) @ issued"
    and len: "length issued = length args"
    by blast+
  have pos: "0 < ?n" by (simp add: app i)
  have 1: "map aid (accounts (fst ?st0)) = [1]" by (simp add: i)
  have 4: "\<forall>k < ?n. aid (accounts (fst st) ! k) = int k + 1"
  proof (intro allI impI)
    fix k assume k: "k < ?n"
    then have "aid (accounts (fst st) ! k) = map aid (accounts (fst st)) ! k" by simp
    also have "\<dots> = map (\<lambda>k. int k + 1) [0..<?n] ! k" by (simp only: ids)
    also have "\<dots> = int k + 1" using k by simp
    finally show "aid (accounts (fst st) ! k) = int k + 1" .
  qed
  have 5: "sorted_wrt (<) (map aid (accounts (fst st)))"
    by (subst ids) (rule sorted_seq_ids)
  have 6: "distinct (map aid (accounts (fst st)))"
    by (subst ids) (rule distinct_seq_ids)
  have mx: "Max (set (map aid (accounts (fst st)))) = int ?n"
    by (subst ids) (rule Max_seq_ids [OF pos])
  have 7: "aid acc = Max (set (map aid (accounts (fst st)))) + 1 \<and>
           name acc = nm \<and> acc_type acc = ty \<and> currency acc = cur \<and>
           initial_balance acc = bal \<and>
           accounts (fst st') = accounts (fst st) @ [acc] \<and> save st' = st'"
    if "add_account nm ty cur bal st = (acc, st')" for nm ty cur bal acc st'
    using add_account_result [OF that] nxt mx by simp
  from 1 app len 4 5 6 7 show ?thesis by blast
qed

lemma fresh_store_account_ids_example:
  "(\<forall>raw. files ex_world ''data.json'' \<noteq> Some (Doc raw)) \<and>
   map aid (accounts (fst (DataStore_init ''data.json'' ex_world))) = [1] \<and>
   map aid (accounts (fst (snd (add_accounts ex_args (DataStore_init ''data.json'' ex_world)))))
     = [1, 2, 3] \<and>
   map aid (fst (add_accounts ex_args (DataStore_init ''data.json'' ex_world))) = [2, 3] \<and>
   sorted_wrt (<)
     (map aid (accounts (fst (snd (add_accounts ex_args (DataStore_init ''data.json'' ex_world)))))) \<and>
   distinct
     (map aid (accounts (fst (snd (add_accounts ex_args (DataStore_init ''data.json'' ex_world))))))"
proof -
  let ?st0 = "DataStore_init ''data.json'' ex_world"
  let ?r = "add_accounts ex_args ?st0"
  have h: "\<forall>raw. files ex_world ''data.json'' \<noteq> Some (Doc raw)"
    by (simp add: ex_world_def)
  have run: "?r = (fst ?r, snd ?r)" by simp
  note spec = fresh_store_account_ids [OF h run]
  from spec have a: "map aid (accounts (fst ?st0)) = [1]" by blast
  from spec have s: "sorted_wrt (<) (map aid (accounts (fst (snd ?r))))" by blast
  from spec have d: "distinct (map aid (accounts (fst (snd ?r))))" by blast
  have st0: "fst ?st0 = (new_fields ''data.json'')
       \<lparr>accounts := [\<lparr>aid = 1, name = SEED_NAME, acc_type = SEED_TYPE,
                      currency = BASE_CURRENCY, initial_balance = 0\<rparr>],
        next_acc_id := 2\<rparr>"
    by (simp add: DataStore_init_def load_def new_fields_def ex_world_def add_account_def
          save_def Let_def)
  obtain s0 w0 where sw: "?st0 = (s0, w0)" by (cases ?st0) auto
  with st0 have s0: "s0 = (new_fields ''data.json'')
       \<lparr>accounts := [\<lparr>aid = 1, name = SEED_NAME, acc_type = SEED_TYPE,
                      currency = BASE_CURRENCY, initial_balance = 0\<rparr>],
        next_acc_id := 2\<rparr>" by simp
  have e: "map aid (accounts (fst (snd ?r))) = [1, 2, 3]"
    unfolding sw by (simp add: ex_args_def add_account_def save_def Let_def s0 new_fields_def)
  have i: "map aid (fst ?r) = [2, 3]"
    unfolding sw by (simp add: ex_args_def add_account_def save_def Let_def s0 new_fields_def)
  from h a e i s d show ?thesis by blast
qed

subsection \<open>Decimal fields: writing and reading\<close>

lemma digit_val_digit_char: "digit_val (digit_char n) = Some (n mod 10)"
  by (simp add: digit_val_def digit_char_def Let_def)

lemma length_zpad [simp]: "length (zpad w n) = w"
  by (induction w arbitrary: n) simp_all

lemma parse_step_digit:
  "parse_step (Some a) (digit_char n) = Some (10 * a + n mod 10)"
  by (simp add: parse_step_def digit_val_digit_char)

lemma foldl_parse_zpad:
  "foldl parse_step (Some a) (zpad w n) = Some (a * 10 ^ w + n mod 10 ^ w)"
proof (induction w arbitrary: n)
  case 0
  then show ?case by simp
next
  case (Suc w)
  have m: "n mod (10 * 10 ^ w) = 10 * (n div 10 mod 10 ^ w) + n mod 10"
    by (rule mod_mult2_eq)
  have "foldl parse_step (Some a) (zpad (Suc w) n)
          = parse_step (foldl parse_step (Some a) (zpad w (n div 10))) (digit_char n)"
    by simp
  also have "\<dots> = parse_step (Some (a * 10 ^ w + n div 10 mod 10 ^ w)) (digit_char n)"
    by (simp only: Suc.IH)
  also have "\<dots> = Some (10 * (a * 10 ^ w + n div 10 mod 10 ^ w) + n mod 10)"
    by (rule parse_step_digit)
  also have "\<dots> = Some (a * 10 ^ Suc w + n mod 10 ^ Suc w)"
    using m by (simp add: algebra_simps)
  finally show ?case .
qed

lemma parse_nat_zpad: "0 < w \<Longrightarrow> n < 10 ^ w \<Longrightarrow> parse_nat (zpad w n) = Some n"
proof -
  assume w: "0 < w" and n: "n < 10 ^ w"
  from w have "zpad w n \<noteq> []" by (metis length_zpad length_0_conv less_numeral_extra(3))
  then show ?thesis using n by (simp add: parse_nat_def foldl_parse_zpad)
qed

lemma fromisoformat_isoformat:
  assumes "valid_datetime d"
  shows "fromisoformat (isoformat d) = Inr d"
proof -
  from assms have y: "year d < 10 ^ 4" and mo: "month d < 10 ^ 2" and dd: "day d < 10 ^ 2"
    and h: "hour d < 10 ^ 2" and mi: "minute d < 10 ^ 2" and s: "second d < 10 ^ 2"
    and us: "microsecond d < 10 ^ 6"
    by (auto simp: valid_datetime_def days_in_month_def split: if_splits)
  note p = parse_nat_zpad [OF _ y] parse_nat_zpad [OF _ mo] parse_nat_zpad [OF _ dd]
    parse_nat_zpad [OF _ h] parse_nat_zpad [OF _ mi] parse_nat_zpad [OF _ s]
    parse_nat_zpad [OF _ us]
  have rec: "\<lparr>year = year d, month = month d, day = day d, hour = hour d, minute = minute d,
              second = second d, microsecond = microsecond d\<rparr> = d"
    by simp
  show ?thesis
  proof (cases "microsecond d = 0")
    case True
    then have rec0: "\<lparr>year = year d, month = month d, day = day d, hour = hour d,
              minute = minute d, second = second d, microsecond = 0\<rparr> = d"
      by (cases d) simp
    from True show ?thesis
      using assms
      by (simp add: fromisoformat_def isoformat_def slice_def nth_append p rec0 Let_def)
  next
    case False
    then show ?thesis
      using assms
      by (simp add: fromisoformat_def isoformat_def slice_def nth_append p rec Let_def)
  qed
qed

text \<open>The digits of concrete numbers, for the examples.\<close>

lemma digit_char_numeral [simp]:
  "digit_char (numeral k) = char_of (48 + numeral k mod (10::nat))"
  by (simp add: digit_char_def)

lemma digit_char_0 [simp]: "digit_char 0 = CHR ''0''"
  by (simp add: digit_char_def char_of_def bit_0)

lemma digit_char_1 [simp]: "digit_char (Suc 0) = CHR ''1''"
  by (simp add: digit_char_def char_of_def bit_0)

lemma zpad_2: "zpad 2 n = [digit_char (n div 10), digit_char n]"
proof -
  have w: "(2::nat) = Suc (Suc 0)" by simp
  show ?thesis unfolding w by simp
qed

lemma zpad_4:
  "zpad 4 n = [digit_char (n div 10 div 10 div 10), digit_char (n div 10 div 10),
               digit_char (n div 10), digit_char n]"
proof -
  have w: "(4::nat) = Suc (Suc (Suc (Suc 0)))" by simp
  show ?thesis unfolding w by simp
qed

lemma zpad_6:
  "zpad 6 n = [digit_char (n div 10 div 10 div 10 div 10 div 10),
               digit_char (n div 10 div 10 div 10 div 10),
               digit_char (n div 10 div 10 div 10), digit_char (n div 10 div 10),
               digit_char (n div 10), digit_char n]"
proof -
  have w: "(6::nat) = Suc (Suc (Suc (Suc (Suc (Suc 0)))))" by simp
  show ?thesis unfolding w by simp
qed








subsection \<open>Saving and loading\<close>

lemma Account_roundtrip: "Account_from_dict (Account_to_dict a) = Inr a"
  by (simp add: Account_from_dict_def Account_to_dict_def then_exn_def subscript_def
        dict_get_def as_int_def as_str_def py_float_def)

lemma Transaction_roundtrip:
  "valid_datetime (date t) \<Longrightarrow> Transaction_from_dict (Transaction_to_dict t) = Inr t"
  by (simp add: Transaction_from_dict_def Transaction_to_dict_def then_exn_def subscript_def
        dict_get_def as_int_def as_str_def py_float_def py_int_def fromisoformat_isoformat)

lemma map_exn_roundtrip:
  "(\<And>x. x \<in> set xs \<Longrightarrow> f (g x) = Inr x) \<Longrightarrow> map_exn f (map g xs) = Inr xs"
  by (induction xs) simp_all

lemma py_max_nonempty: "xs \<noteq> [] \<Longrightarrow> py_max xs = Inr (Max (set xs))"
  by (cases xs) (simp_all add: py_max_def Max.set_eq_fold [symmetric])

text \<open>Loading the document that \<open>save\<close> writes succeeds and gives back the lists.\<close>

lemma load_try_dump:
  assumes "\<forall>t\<in>set (transactions s). valid_datetime (date t)"
  shows "\<exists>st. load_try s0
           (Doc (JObj [(''accounts'', JArr (map Account_to_dict (accounts s))),
                       (''transactions'', JArr (map Transaction_to_dict (transactions s))),
                       (''settings'', JObj (settings s))])) = (None, st) \<and>
          accounts st = accounts s \<and> transactions st = transactions s \<and> path st = path s0"
proof -
  have a: "map_exn Account_from_dict (map Account_to_dict (accounts s)) = Inr (accounts s)"
    by (rule map_exn_roundtrip) (rule Account_roundtrip)
  have t: "map_exn Transaction_from_dict (map Transaction_to_dict (transactions s))
             = Inr (transactions s)"
    using assms by (intro map_exn_roundtrip Transaction_roundtrip) blast
  show ?thesis
    by (cases "accounts s = []"; cases "transactions s = []")
       (simp_all add: load_try_def dict_get_def iter_items_def then_exn_def a t Let_def
          py_max_nonempty dict_update_def)
qed

text \<open>
  Claim C3. For every store whose transactions carry valid dates (as every
  \<^verbatim>\<open>datetime\<close> does), after \<open>save\<close> the \<open>load\<close> of a store with the fresh fields of the
  constructor, at the same path, gives accounts and transactions equal to the saved ones,
  field by field, the dates down to the microsecond. When the saved store has an account
  (as every constructed store has), the constructor as a whole gives the same lists.
\<close>

theorem save_load_roundtrip:
  assumes "\<forall>t\<in>set (transactions s). valid_datetime (date t)"
  shows "accounts (fst (load (new_fields (path s), snd (save (s, w))))) = accounts s \<and>
         transactions (fst (load (new_fields (path s), snd (save (s, w))))) = transactions s \<and>
         (accounts s \<noteq> [] \<longrightarrow>
            accounts (fst (DataStore_init (path s) (snd (save (s, w))))) = accounts s \<and>
            transactions (fst (DataStore_init (path s) (snd (save (s, w))))) = transactions s)"
proof -
  let ?doc = "Doc (JObj [(''accounts'', JArr (map Account_to_dict (accounts s))),
                       (''transactions'', JArr (map Transaction_to_dict (transactions s))),
                       (''settings'', JObj (settings s))])"
  let ?w = "snd (save (s, w))"
  have f: "files ?w (path s) = Some ?doc" by (simp add: save_def)
  obtain st where st: "load_try (new_fields (path s)) ?doc = (None, st)"
    and acc: "accounts st = accounts s" and tx: "transactions st = transactions s"
    using load_try_dump [OF assms, of "new_fields (path s)"] by blast
  have p: "path (new_fields (path s)) = path s" by (simp add: new_fields_def)
  have l: "load (new_fields (path s), ?w) = (st, ?w)"
    by (simp add: load_def p f st)
  have 1: "accounts (fst (load (new_fields (path s), ?w))) = accounts s"
    and 2: "transactions (fst (load (new_fields (path s), ?w))) = transactions s"
    by (simp_all add: l acc tx)
  have 3: "accounts (fst (DataStore_init (path s) ?w)) = accounts s \<and>
           transactions (fst (DataStore_init (path s) ?w)) = transactions s"
    if "accounts s \<noteq> []"
    using that by (simp add: DataStore_init_def l acc tx)
  from 1 2 3 show ?thesis by blast
qed

theorem save_load_roundtrip_witness:
  "valid_datetime ex_date \<and> valid_datetime ex_date2 \<and>
   isoformat ex_date2 = ''2024-04-01T23:59:07.250000'' \<and>
   map date (transactions ex_store_dates) = [ex_date, ex_date2, ex_date, ex_date2] \<and>
   accounts ex_store_dates = [ex_acc] \<and>
   accounts (fst (load (new_fields (path ex_store_dates), snd (save (ex_store_dates, ex_world)))))
     = accounts ex_store_dates \<and>
   transactions (fst (load (new_fields (path ex_store_dates), snd (save (ex_store_dates, ex_world)))))
     = transactions ex_store_dates \<and>
   accounts (fst (DataStore_init (path ex_store_dates) (snd (save (ex_store_dates, ex_world)))))
     = accounts ex_store_dates \<and>
   transactions (fst (DataStore_init (path ex_store_dates) (snd (save (ex_store_dates, ex_world)))))
     = transactions ex_store_dates"
proof -
  have v1: "valid_datetime ex_date"
    by (simp add: valid_datetime_def ex_date_def days_in_month_def)
  have v2: "valid_datetime ex_date2"
    by (simp add: valid_datetime_def ex_date2_def days_in_month_def)
  have d: "map date (transactions ex_store_dates) = [ex_date, ex_date2, ex_date, ex_date2]"
    by (simp add: ex_store_dates_def ex_tx_def)
  have "set (map date (transactions ex_store_dates)) \<subseteq> {ex_date, ex_date2}"
    by (simp add: d)
  with v1 v2 have h: "\<forall>t\<in>set (transactions ex_store_dates). valid_datetime (date t)"
    by auto
  have a: "accounts ex_store_dates = [ex_acc]" by (simp add: ex_store_dates_def)
  then have ne: "accounts ex_store_dates \<noteq> []" by simp
  have i: "isoformat ex_date2 = ''2024-04-01T23:59:07.250000''"
    by (simp add: isoformat_def ex_date2_def zpad_2 zpad_4 zpad_6 char_of_def bit_0)
  from save_load_roundtrip [OF h, of ex_world] ne v1 v2 d a i show ?thesis by blast
qed

subsection \<open>The report\<close>










subsection \<open>The counter of account ids after a load\<close>

text \<open>
  When the whole \<^verbatim>\<open>try\<close> block of \<open>load\<close> has run and there are accounts, the counter is
  the maximum of their ids plus 1; \<open>add_account\<close> then issues that number and keeps the
  counter at the maximum plus 1.
\<close>

lemma load_ok_counter:
  assumes "load_try s f = (None, st)" and "accounts st \<noteq> []"
  shows "next_acc_id st = Max (set (map aid (accounts st))) + 1"
  using assms
  by (auto simp: load_try_def then_exn_def Let_def py_max_nonempty
           split: content.splits sum.splits if_splits)

lemma add_account_keeps_counter:
  assumes "accounts (fst st) \<noteq> []"
    and "next_acc_id (fst st) = Max (set (map aid (accounts (fst st)))) + 1"
    and "add_account nm ty cur bal st = (acc, st')"
  shows "aid acc = Max (set (map aid (accounts (fst st)))) + 1"
    and "next_acc_id (fst st') = Max (set (map aid (accounts (fst st')))) + 1"
proof -
  note r = add_account_result [OF assms(3)]
  from r assms(2) show a: "aid acc = Max (set (map aid (accounts (fst st)))) + 1" by simp
  have "Max (set (map aid (accounts (fst st) @ [acc])))
          = max (aid acc) (Max (set (map aid (accounts (fst st)))))"
    using assms(1) by simp
  also have "\<dots> = aid acc" using a by simp
  finally show "next_acc_id (fst st') = Max (set (map aid (accounts (fst st')))) + 1"
    using r assms(2) by simp
qed

subsection \<open>Loading a malformed file\<close>

text \<open>
  A file that is not JSON leaves the store as it was; the failure is printed, not raised.
  In the constructor the store has the fresh fields then: no accounts, no transactions,
  both counters 1.
\<close>

lemma load_unparsable:
  "files w (path s) = Some f \<Longrightarrow> \<forall>raw. f \<noteq> Doc raw \<Longrightarrow>
     load (s, w) = (s, w\<lparr>console := console w @ [LoadError JSONDecodeError]\<rparr>)"
  by (cases f) (simp_all add: load_def load_try_def)

text \<open>The two documents: the exception is caught after the accounts have been assigned.\<close>

lemma load_bad_doc:
  "load (new_fields ''data.json'', ex_bad_world ex_bad_doc)
     = ((new_fields ''data.json'')\<lparr>accounts := [ex_loaded_acc]\<rparr>,
        (ex_bad_world ex_bad_doc)\<lparr>console := [LoadError TypeError]\<rparr>)"
  by (simp add: load_def load_try_def new_fields_def ex_bad_world_def ex_bad_doc_def
        ex_loaded_acc_def dict_get_def iter_items_def then_exn_def Account_from_dict_def
        subscript_def as_int_def as_str_def py_float_def BASE_CURRENCY_def Let_def)

lemma load_bad_doc2:
  "load (new_fields ''data.json'', ex_bad_world ex_bad_doc2)
     = ((new_fields ''data.json'')\<lparr>accounts := [ex_loaded_acc]\<rparr>,
        (ex_bad_world ex_bad_doc2)\<lparr>console := [LoadError KeyError]\<rparr>)"
  by (simp add: load_def load_try_def new_fields_def ex_bad_world_def ex_bad_doc2_def
        ex_loaded_acc_def dict_get_def iter_items_def then_exn_def Account_from_dict_def
        Transaction_from_dict_def
        subscript_def as_int_def as_str_def py_float_def BASE_CURRENCY_def Let_def)

text \<open>
  Claim C7 says that for every malformed file \<open>load\<close> catches the failure and the ledger
  starts empty, with both counters at 1. The failure is always caught, but the ledger is
  not always empty: \<open>load\<close> assigns the accounts before it builds the transactions, so
  for a file whose accounts are well-formed and whose transactions are not, the account list
  stays loaded while the transactions stay empty and the counter for account ids stays 1.
  This holds for both example documents. The constructor then seeds no account, and the
  fifth call of \<open>add_account\<close> issues the id 5 a second time.
\<close>

theorem load_partial_failure:
  "accounts (fst (load (new_fields ''data.json'', ex_bad_world ex_bad_doc))) = [ex_loaded_acc] \<and>
   transactions (fst (load (new_fields ''data.json'', ex_bad_world ex_bad_doc))) = [] \<and>
   next_acc_id (fst (load (new_fields ''data.json'', ex_bad_world ex_bad_doc))) = 1 \<and>
   console (snd (load (new_fields ''data.json'', ex_bad_world ex_bad_doc))) = [LoadError TypeError] \<and>
   accounts (fst (load (new_fields ''data.json'', ex_bad_world ex_bad_doc2))) = [ex_loaded_acc] \<and>
   transactions (fst (load (new_fields ''data.json'', ex_bad_world ex_bad_doc2))) = [] \<and>
   next_acc_id (fst (load (new_fields ''data.json'', ex_bad_world ex_bad_doc2))) = 1 \<and>
   console (snd (load (new_fields ''data.json'', ex_bad_world ex_bad_doc2))) = [LoadError KeyError] \<and>
   map aid (accounts (fst (DataStore_init ''data.json'' (ex_bad_world ex_bad_doc)))) = [5] \<and>
   map aid (accounts (fst (snd (add_accounts (replicate 5 (''N'', ''T'', ''RUB'', 0))
                                  (DataStore_init ''data.json'' (ex_bad_world ex_bad_doc))))))
     = [5, 1, 2, 3, 4, 5]"
proof -
  have i: "DataStore_init ''data.json'' (ex_bad_world ex_bad_doc)
            = ((new_fields ''data.json'')\<lparr>accounts := [ex_loaded_acc]\<rparr>,
               (ex_bad_world ex_bad_doc)\<lparr>console := [LoadError TypeError]\<rparr>)"
    by (simp add: DataStore_init_def load_bad_doc)
  have r: "replicate 5 x = [x, x, x, x, x]" for x :: "string \<times> string \<times> string \<times> real"
    by (simp add: numeral_eq_Suc)
  have a: "map aid (accounts (fst (snd (add_accounts (replicate 5 (''N'', ''T'', ''RUB'', 0))
                                  (DataStore_init ''data.json'' (ex_bad_world ex_bad_doc))))))
     = [5, 1, 2, 3, 4, 5]"
    unfolding i r
    by (simp add: add_account_def save_def Let_def new_fields_def ex_loaded_acc_def)
  have n: "next_acc_id ((new_fields ''data.json'')\<lparr>accounts := [ex_loaded_acc]\<rparr>) = 1"
    and t: "transactions ((new_fields ''data.json'')\<lparr>accounts := [ex_loaded_acc]\<rparr>) = []"
    by (simp_all add: new_fields_def)
  have k: "aid ex_loaded_acc = 5" by (simp add: ex_loaded_acc_def)
  have b: "map aid (accounts (fst (DataStore_init ''data.json'' (ex_bad_world ex_bad_doc)))) = [5]"
    by (simp add: i k)
  show ?thesis
    by (simp add: load_bad_doc load_bad_doc2 a b n t)
qed

subsection \<open>The ids of new accounts after a partial load\<close>

text \<open>
  Claim C4 says that on a freshly constructed ledger every call of \<open>add_account\<close> issues
  the maximum of the present ids plus 1, and that the ids of the accounts are strictly
  increasing and pairwise distinct. On the store constructed from the first example
  document this fails: the constructor keeps the loaded account with id 5 and the counter 1,
  so the first call issues 1 where the maximum plus 1 is 6, five calls issue 1 to 5, and the
  accounts then have the ids 5, 1, 2, 3, 4, 5, neither increasing nor distinct. Each call
  does append the account and write the file: after the first call the file holds both
  accounts and no transactions.
\<close>

theorem add_account_reissues_id:
  "map aid (accounts (fst (DataStore_init ''data.json'' (ex_bad_world ex_bad_doc)))) = [5] \<and>
   next_acc_id (fst (DataStore_init ''data.json'' (ex_bad_world ex_bad_doc))) = 1 \<and>
   Max (set (map aid (accounts (fst (DataStore_init ''data.json'' (ex_bad_world ex_bad_doc))))))
     + 1 = 6 \<and>
   aid (fst (add_account ''N'' ''T'' ''RUB'' 0
               (DataStore_init ''data.json'' (ex_bad_world ex_bad_doc)))) = 1 \<and>
   files (snd (snd (add_account ''N'' ''T'' ''RUB'' 0
                      (DataStore_init ''data.json'' (ex_bad_world ex_bad_doc))))) ''data.json''
     = Some (Doc (JObj
         [(''accounts'',
           JArr [Account_to_dict ex_loaded_acc,
                 Account_to_dict \<lparr>aid = 1, name = ''N'', acc_type = ''T'', currency = ''RUB'',
                                  initial_balance = 0\<rparr>]),
          (''transactions'', JArr []),
          (''settings'', JObj [(''user_name'', JStr DEFAULT_USER_NAME)])])) \<and>
   map aid (fst (add_accounts (replicate 5 (''N'', ''T'', ''RUB'', 0))
                   (DataStore_init ''data.json'' (ex_bad_world ex_bad_doc))))
     = [1, 2, 3, 4, 5] \<and>
   map aid (accounts (fst (snd (add_accounts (replicate 5 (''N'', ''T'', ''RUB'', 0))
                                  (DataStore_init ''data.json'' (ex_bad_world ex_bad_doc))))))
     = [5, 1, 2, 3, 4, 5] \<and>
   \<not> distinct
       (map aid (accounts (fst (snd (add_accounts (replicate 5 (''N'', ''T'', ''RUB'', 0))
                                      (DataStore_init ''data.json'' (ex_bad_world ex_bad_doc))))))) \<and>
   \<not> sorted_wrt (<)
       (map aid (accounts (fst (snd (add_accounts (replicate 5 (''N'', ''T'', ''RUB'', 0))
                                      (DataStore_init ''data.json'' (ex_bad_world ex_bad_doc)))))))"
proof -
  let ?st0 = "DataStore_init ''data.json'' (ex_bad_world ex_bad_doc)"
  have i: "?st0 = ((new_fields ''data.json'')\<lparr>accounts := [ex_loaded_acc]\<rparr>,
                   (ex_bad_world ex_bad_doc)\<lparr>console := [LoadError TypeError]\<rparr>)"
    by (simp add: DataStore_init_def load_bad_doc)
  have r: "replicate 5 x = [x, x, x, x, x]" for x :: "string \<times> string \<times> string \<times> real"
    by (simp add: numeral_eq_Suc)
  have 1: "map aid (accounts (fst ?st0)) = [5]"
    by (simp add: i ex_loaded_acc_def)
  have 2: "next_acc_id (fst ?st0) = 1"
    by (simp add: i new_fields_def)
  have 3: "Max (set (map aid (accounts (fst ?st0)))) + 1 = 6"
    by (simp add: 1)
  have 4: "aid (fst (add_account ''N'' ''T'' ''RUB'' 0 ?st0)) = 1"
    unfolding i by (simp add: add_account_def Let_def new_fields_def)
  have 5: "files (snd (snd (add_account ''N'' ''T'' ''RUB'' 0 ?st0))) ''data.json''
     = Some (Doc (JObj
         [(''accounts'',
           JArr [Account_to_dict ex_loaded_acc,
                 Account_to_dict \<lparr>aid = 1, name = ''N'', acc_type = ''T'', currency = ''RUB'',
                                  initial_balance = 0\<rparr>]),
          (''transactions'', JArr []),
          (''settings'', JObj [(''user_name'', JStr DEFAULT_USER_NAME)])]))"
    unfolding i by (simp add: add_account_def save_def Let_def new_fields_def)
  have 6: "map aid (fst (add_accounts (replicate 5 (''N'', ''T'', ''RUB'', 0)) ?st0))
             = [1, 2, 3, 4, 5]"
    unfolding i r by (simp add: add_account_def save_def Let_def new_fields_def)
  have 7: "map aid (accounts (fst (snd (add_accounts (replicate 5 (''N'', ''T'', ''RUB'', 0)) ?st0))))
             = [5, 1, 2, 3, 4, 5]"
    unfolding i r
    by (simp add: add_account_def save_def Let_def new_fields_def ex_loaded_acc_def)
  have 8: "\<not> distinct (map aid (accounts (fst (snd
              (add_accounts (replicate 5 (''N'', ''T'', ''RUB'', 0)) ?st0)))))"
    by (simp add: 7)
  have 9: "\<not> sorted_wrt (<) (map aid (accounts (fst (snd
              (add_accounts (replicate 5 (''N'', ''T'', ''RUB'', 0)) ?st0)))))"
    by (simp add: 7)
  from 1 2 3 4 5 6 7 8 9 show ?thesis by blast
qed

end
